theory Spec2Isabelle
  imports Complex_Main
begin

section \<open>JavaScript values of the service\<close>

text \<open>
  The service (\<^verbatim>\<open>src/index.js\<close>) is three Express handlers. Their inputs are the
  fields of a JSON request body and the reply of the completion provider; both are
  JavaScript values, and the handlers rely on JavaScript's implicit conversions
  (\<^verbatim>\<open>!x\<close>, \<^verbatim>\<open>isNaN(x)\<close>, \<^verbatim>\<open>x * 3\<close>, \<^verbatim>\<open>x > 400\<close>, \<^verbatim>\<open>x + y\<close>). The model
  therefore keeps values untyped, as the code does.

  Numbers: a JavaScript number is \<^verbatim>\<open>NaN\<close>, an infinity or a finite value. Finite values
  are modelled as exact reals: the rounding of IEEE doubles, overflow to an infinity and
  the sign of zero are not represented.

  Strings: a string is a list of 8-bit characters, read as the code units 0..255
  (Latin-1); text outside that range is not represented.
\<close>

datatype jsnum = NaN | PosInf | NegInf | Fin real

datatype jsval =
    Undefined
  | Null
  | Bool bool
  | Num jsnum
  | Str string
  | Arr "jsval list"
  | Obj "(string \<times> jsval) list"

datatype jserror = TypeError | SyntaxError | ProviderError

subsection \<open>Arithmetic and comparison of numbers\<close>

fun num_neg :: "jsnum \<Rightarrow> jsnum" where
  "num_neg NaN = NaN"
| "num_neg PosInf = NegInf"
| "num_neg NegInf = PosInf"
| "num_neg (Fin a) = Fin (- a)"

fun num_add :: "jsnum \<Rightarrow> jsnum \<Rightarrow> jsnum" where
  "num_add (Fin a) (Fin b) = Fin (a + b)"
| "num_add NaN _ = NaN"
| "num_add _ NaN = NaN"
| "num_add PosInf NegInf = NaN"
| "num_add NegInf PosInf = NaN"
| "num_add PosInf _ = PosInf"
| "num_add _ PosInf = PosInf"
| "num_add NegInf _ = NegInf"
| "num_add _ NegInf = NegInf"

definition num_sub :: "jsnum \<Rightarrow> jsnum \<Rightarrow> jsnum" where
  "num_sub a b = num_add a (num_neg b)"

text \<open>The sign of a number: \<open>None\<close> for \<^verbatim>\<open>NaN\<close>, otherwise -1, 0 or 1.\<close>

fun num_sign :: "jsnum \<Rightarrow> int option" where
  "num_sign NaN = None"
| "num_sign PosInf = Some 1"
| "num_sign NegInf = Some (- 1)"
| "num_sign (Fin a) = Some (if a < 0 then - 1 else if a = 0 then 0 else 1)"

fun num_mul :: "jsnum \<Rightarrow> jsnum \<Rightarrow> jsnum" where
  "num_mul (Fin a) (Fin b) = Fin (a * b)"
| "num_mul a b =
     (case (num_sign a, num_sign b) of
        (Some s, Some t) \<Rightarrow>
          if s * t = 0 then NaN else if 0 < s * t then PosInf else NegInf
      | _ \<Rightarrow> NaN)"

text \<open>\<^verbatim>\<open>a < b\<close> on numbers: false as soon as one side is \<^verbatim>\<open>NaN\<close>.\<close>

fun num_lt :: "jsnum \<Rightarrow> jsnum \<Rightarrow> bool" where
  "num_lt NaN _ = False"
| "num_lt _ NaN = False"
| "num_lt (Fin a) (Fin b) = (a < b)"
| "num_lt PosInf _ = False"
| "num_lt _ PosInf = True"
| "num_lt _ NegInf = False"
| "num_lt NegInf _ = True"

definition num_gt :: "jsnum \<Rightarrow> jsnum \<Rightarrow> bool" where
  "num_gt a b = num_lt b a"

definition Math_min :: "jsnum \<Rightarrow> jsnum \<Rightarrow> jsnum" where
  "Math_min a b = (if a = NaN \<or> b = NaN then NaN else if num_lt b a then b else a)"

definition Math_max :: "jsnum \<Rightarrow> jsnum \<Rightarrow> jsnum" where
  "Math_max a b = (if a = NaN \<or> b = NaN then NaN else if num_lt a b then b else a)"

fun Math_floor :: "jsnum \<Rightarrow> jsnum" where
  "Math_floor (Fin a) = Fin (of_int \<lfloor>a\<rfloor>)"
| "Math_floor n = n"

subsection \<open>Strings\<close>

text \<open>
  White space and line terminators of ECMAScript within the code units 0..255:
  TAB, LF, VT, FF, CR, SP and NBSP.
\<close>

definition is_ws :: "char \<Rightarrow> bool" where
  "is_ws c = (c \<in> set [CHR 0x09, CHR 0x0A, CHR 0x0B, CHR 0x0C, CHR 0x0D, CHR 0x20, CHR 0xA0])"

definition trim_start :: "string \<Rightarrow> string" where
  "trim_start s = dropWhile is_ws s"

definition trim :: "string \<Rightarrow> string" where
  "trim s = rev (dropWhile is_ws (rev (dropWhile is_ws s)))"

definition lower_char :: "char \<Rightarrow> char" where
  "lower_char c =
     (let n = (of_char c :: nat) in
      if (65 \<le> n \<and> n \<le> 90) \<or> (192 \<le> n \<and> n \<le> 222 \<and> n \<noteq> 215)
      then char_of (n + 32) else c)"

definition toLowerCase :: "string \<Rightarrow> string" where
  "toLowerCase s = map lower_char s"

fun starts_with :: "string \<Rightarrow> string \<Rightarrow> bool" where
  "starts_with [] s = True"
| "starts_with (p # ps) [] = False"
| "starts_with (p # ps) (c # cs) = (p = c \<and> starts_with ps cs)"

text \<open>\<^verbatim>\<open>s.includes(needle)\<close>.\<close>

fun str_includes :: "string \<Rightarrow> string \<Rightarrow> bool" where
  "str_includes [] needle = (needle = [])"
| "str_includes (c # cs) needle = (starts_with needle (c # cs) \<or> str_includes cs needle)"

text \<open>\<^verbatim>\<open>s.indexOf(c)\<close> and \<^verbatim>\<open>s.lastIndexOf(c)\<close> for a one-character needle: -1 when absent.\<close>

fun indexOf :: "string \<Rightarrow> char \<Rightarrow> int" where
  "indexOf [] c = - 1"
| "indexOf (x # xs) c =
     (if x = c then 0 else (let i = indexOf xs c in if i < 0 then - 1 else i + 1))"

definition lastIndexOf :: "string \<Rightarrow> char \<Rightarrow> int" where
  "lastIndexOf s c =
     (let i = indexOf (rev s) c in if i < 0 then - 1 else int (length s) - 1 - i)"

text \<open>\<^verbatim>\<open>s.slice(start, end)\<close>: a negative index counts from the end, both are clamped.\<close>

definition slice :: "string \<Rightarrow> int \<Rightarrow> int \<Rightarrow> string" where
  "slice s start end' =
     (let len = int (length s);
          lo = (if start < 0 then max (len + start) 0 else min start len);
          hi = (if end' < 0 then max (len + end') 0 else min end' len)
      in take (nat (hi - lo)) (drop (nat lo) s))"

subsection \<open>Numeric literals in strings\<close>

definition is_digit :: "char \<Rightarrow> bool" where
  "is_digit c = (48 \<le> (of_char c :: nat) \<and> (of_char c :: nat) \<le> 57)"

definition digit_val :: "char \<Rightarrow> nat" where
  "digit_val c = of_char c - 48"

definition digits_val :: "string \<Rightarrow> nat" where
  "digits_val ds = foldl (\<lambda>a c. 10 * a + digit_val c) 0 ds"

definition scale10 :: "real \<Rightarrow> int \<Rightarrow> real" where
  "scale10 m e = (if 0 \<le> e then m * 10 ^ nat e else m / 10 ^ nat (- e))"

text \<open>
  An exponent part \<^verbatim>\<open>e[+-]digits\<close> at the head of the string, if there is one: its
  value and the rest; otherwise exponent 0 and the string as it is.
\<close>

definition exponent_part :: "string \<Rightarrow> int \<times> string" where
  "exponent_part s =
     (case s of
        [] \<Rightarrow> (0, s)
      | e # r \<Rightarrow>
          if e = CHR ''e'' \<or> e = CHR ''E'' then
            (let neg = (case r of [] \<Rightarrow> False | c # _ \<Rightarrow> c = CHR ''-'');
                 r' = (case r of [] \<Rightarrow> r | c # r2 \<Rightarrow> if c = CHR ''-'' \<or> c = CHR ''+'' then r2 else r);
                 ds = takeWhile is_digit r'
             in if ds = [] then (0, s)
                else ((if neg then - int (digits_val ds) else int (digits_val ds)),
                      dropWhile is_digit r'))
          else (0, s))"

text \<open>
  The longest prefix that is a \<^verbatim>\<open>StrUnsignedDecimalLiteral\<close> (\<^verbatim>\<open>Infinity\<close>,
  \<^verbatim>\<open>12\<close>, \<^verbatim>\<open>12.\<close>, \<^verbatim>\<open>12.5e3\<close>, \<^verbatim>\<open>.5\<close>), with its value and the rest of the string.
\<close>

definition unsigned_decimal :: "string \<Rightarrow> (jsnum \<times> string) option" where
  "unsigned_decimal s =
     (if starts_with ''Infinity'' s then Some (PosInf, drop 8 s)
      else
        (let ip = takeWhile is_digit s; r1 = dropWhile is_digit s in
         case r1 of
           [] \<Rightarrow> if ip = [] then None else Some (Fin (real (digits_val ip)), [])
         | d # r2 \<Rightarrow>
             if d = CHR ''.'' then
               (let fp = takeWhile is_digit r2; r3 = dropWhile is_digit r2 in
                if ip = [] \<and> fp = [] then None
                else (case exponent_part r3 of
                        (e, r4) \<Rightarrow>
                          Some (Fin (scale10 (real (digits_val (ip @ fp))) (e - int (length fp))), r4)))
             else if ip = [] then None
             else (case exponent_part r1 of
                     (e, r4) \<Rightarrow> Some (Fin (scale10 (real (digits_val ip)) e), r4))))"

definition str_decimal_literal :: "string \<Rightarrow> (jsnum \<times> string) option" where
  "str_decimal_literal s =
     (case s of
        [] \<Rightarrow> None
      | c # r \<Rightarrow>
          if c = CHR ''+'' then unsigned_decimal r
          else if c = CHR ''-'' then map_option (\<lambda>(n, t). (num_neg n, t)) (unsigned_decimal r)
          else unsigned_decimal s)"

text \<open>\<^verbatim>\<open>parseFloat(s)\<close> for a string \<open>s\<close>.\<close>

definition parseFloat :: "string \<Rightarrow> jsnum" where
  "parseFloat s =
     (case str_decimal_literal (trim_start s) of None \<Rightarrow> NaN | Some (n, _) \<Rightarrow> n)"

text \<open>The literals \<^verbatim>\<open>0x..\<close>, \<^verbatim>\<open>0o..\<close> and \<^verbatim>\<open>0b..\<close> that \<^verbatim>\<open>Number(s)\<close> accepts.\<close>

definition radix_digit :: "char \<Rightarrow> nat" where
  "radix_digit c =
     (let n = (of_char c :: nat) in
      if 48 \<le> n \<and> n \<le> 57 then n - 48
      else if 97 \<le> n \<and> n \<le> 102 then n - 87
      else if 65 \<le> n \<and> n \<le> 70 then n - 55
      else 16)"

definition radix_literal :: "string \<Rightarrow> nat option" where
  "radix_literal t =
     (case t of
        z # x # ds \<Rightarrow>
          (let b = (if x = CHR ''x'' \<or> x = CHR ''X'' then 16
                    else if x = CHR ''o'' \<or> x = CHR ''O'' then 8
                    else if x = CHR ''b'' \<or> x = CHR ''B'' then 2 else (0::nat))
           in if z = CHR ''0'' \<and> ds \<noteq> [] \<and> list_all (\<lambda>d. radix_digit d < b) ds
              then Some (foldl (\<lambda>a d. b * a + radix_digit d) 0 ds) else None)
      | _ \<Rightarrow> None)"

text \<open>\<^verbatim>\<open>Number(s)\<close> for a string \<open>s\<close> (the abstract operation StringToNumber).\<close>

definition string_to_number :: "string \<Rightarrow> jsnum" where
  "string_to_number s =
     (let t = trim s in
      if t = [] then Fin 0
      else case radix_literal t of
             Some n \<Rightarrow> Fin (real n)
           | None \<Rightarrow> (case str_decimal_literal t of Some (n, []) \<Rightarrow> n | _ \<Rightarrow> NaN))"

subsection \<open>Implicit conversions\<close>

text \<open>\<^verbatim>\<open>!!v\<close>: the falsy values are undefined, null, false, 0, NaN and the empty string.\<close>

fun to_boolean :: "jsval \<Rightarrow> bool" where
  "to_boolean Undefined = False"
| "to_boolean Null = False"
| "to_boolean (Bool b) = b"
| "to_boolean (Num n) = (n \<noteq> NaN \<and> n \<noteq> Fin 0)"
| "to_boolean (Str s) = (s \<noteq> [])"
| "to_boolean (Arr xs) = True"
| "to_boolean (Obj kvs) = True"

text \<open>
  Converting an object to a primitive calls its \<^verbatim>\<open>valueOf\<close> and \<^verbatim>\<open>toString\<close>
  methods. An object that came out of \<^verbatim>\<open>JSON.parse\<close> inherits both; when it carries an
  own member named \<^verbatim>\<open>toString\<close> (never callable, being JSON), the inherited
  \<^verbatim>\<open>valueOf\<close> returns the object itself and no method yields a primitive: the
  conversion throws a TypeError. An array converts by joining its elements, which
  converts each of them.
\<close>

fun throws :: "jsval \<Rightarrow> bool" where
  "throws (Obj kvs) = (''toString'' \<in> set (map fst kvs))"
| "throws (Arr xs) = list_ex throws xs"
| "throws v = False"

fun join :: "string \<Rightarrow> string list \<Rightarrow> string" where
  "join sep [] = []"
| "join sep [x] = x"
| "join sep (x # y # ys) = x @ sep @ join sep (y # ys)"

text \<open>
  \<^verbatim>\<open>String(v)\<close>, for a value whose conversion does not throw. The text of a number
  (\<^verbatim>\<open>Number::toString\<close>, the shortest decimal that reads back as the same double) has
  no counterpart on exact reals; it is the parameter \<open>fmt\<close>.
\<close>

fun to_string :: "(jsnum \<Rightarrow> string) \<Rightarrow> jsval \<Rightarrow> string" where
  "to_string fmt Undefined = ''undefined''"
| "to_string fmt Null = ''null''"
| "to_string fmt (Bool b) = (if b then ''true'' else ''false'')"
| "to_string fmt (Num n) = fmt n"
| "to_string fmt (Str s) = s"
| "to_string fmt (Arr xs) =
     join '','' (map (\<lambda>x. if x = Undefined \<or> x = Null then [] else to_string fmt x) xs)"
| "to_string fmt (Obj kvs) = ''[object Object]''"

text \<open>\<^verbatim>\<open>Number(v)\<close>, the conversion behind \<^verbatim>\<open>isNaN\<close>, \<^verbatim>\<open>*\<close>, \<^verbatim>\<open><\<close> and \<^verbatim>\<open>Math.min\<close>.\<close>

definition to_number :: "(jsnum \<Rightarrow> string) \<Rightarrow> jsval \<Rightarrow> jserror + jsnum" where
  "to_number fmt v =
     (if throws v then Inl TypeError
      else Inr (case v of
                  Undefined \<Rightarrow> NaN
                | Null \<Rightarrow> Fin 0
                | Bool b \<Rightarrow> Fin (if b then 1 else 0)
                | Num n \<Rightarrow> n
                | Str s \<Rightarrow> string_to_number s
                | Arr xs \<Rightarrow> string_to_number (to_string fmt v)
                | Obj kvs \<Rightarrow> NaN))"

definition isNaN :: "(jsnum \<Rightarrow> string) \<Rightarrow> jsval \<Rightarrow> jserror + bool" where
  "isNaN fmt v = (case to_number fmt v of Inl e \<Rightarrow> Inl e | Inr n \<Rightarrow> Inr (n = NaN))"

text \<open>Reading a member of a request body or of a parsed object: undefined when absent.\<close>

definition get_field :: "(string \<times> jsval) list \<Rightarrow> string \<Rightarrow> jsval" where
  "get_field kvs k = (case map_of kvs k of None \<Rightarrow> Undefined | Some v \<Rightarrow> v)"

text \<open>
  Interpolating values into a template literal (\<^verbatim>\<open>`... ${v} ...`\<close>, \<^verbatim>\<open>xs.join(', ')\<close>)
  converts each of them to a string, which throws where the conversion throws. The
  prompt text itself is not represented: the provider is opaque, and what it answers is
  an input of the model.
\<close>

definition template :: "jsval list \<Rightarrow> jserror + unit" where
  "template vs = (if list_ex throws vs then Inl TypeError else Inr ())"

section \<open>Environment and outcomes\<close>

text \<open>
  What a handler reads besides the request. \<open>reply\<close> is what
  \<^verbatim>\<open>(await openai.chat.completions.create(...)).choices[0].message.content\<close> evaluates
  to: \<open>Failed\<close> when the call rejects or the completion has no such member, otherwise
  the content. \<open>math_random\<close> is the draw of \<^verbatim>\<open>Math.random()\<close>, \<open>date_now\<close> the
  milliseconds since the epoch of \<^verbatim>\<open>new Date()\<close>, \<open>tz_offset\<close> the offset of local
  time at an instant (milliseconds), \<open>number_to_string\<close> the text of a number.
\<close>

datatype completion = Failed | Content jsval

record env =
  reply :: completion
  math_random :: real
  date_now :: int
  tz_offset :: "int \<Rightarrow> int"
  number_to_string :: "jsnum \<Rightarrow> string"

text \<open>
  A handler either sends a response (status and body, the body as the value handed to
  \<^verbatim>\<open>res.json\<close>) or throws outside its \<^verbatim>\<open>try\<close> block, in which case the async
  handler's promise rejects and the handler sends nothing. The second component of a
  handler's result counts the calls of the provider.
\<close>

datatype outcome = Responded nat jsval | Uncaught jserror

section \<open>POST /forecast\<close>

definition invalid_glucose :: outcome where
  "invalid_glucose = Responded 400 (Obj [(''error'', Str ''Invalid glucose value'')])"

text \<open>The \<^verbatim>\<open>try\<close> block: the body of the 200 response, or the error that is caught.\<close>

definition forecast_try :: "env \<Rightarrow> jsval \<Rightarrow> jserror + jsval" where
  "forecast_try e currentGlucose =
     (case reply e of
        Failed \<Rightarrow> Inl ProviderError
      | Content c \<Rightarrow>
          (case c of
             Str raw \<Rightarrow>
               (let forecastRaw = trim raw;
                    forecast = parseFloat forecastRaw
                in if forecast \<noteq> NaN \<and> num_gt forecast (Fin 40) \<and> num_lt forecast (Fin 400)
                   then Inr (Obj [(''forecast'', Num forecast)])
                   else (case to_number (number_to_string e) currentGlucose of
                           Inl err \<Rightarrow> Inl err
                         | Inr n \<Rightarrow>
                             Inr (Obj [(''forecast'',
                               Num (num_add n
                                 (Math_floor (num_sub (num_mul (Fin (math_random e)) (Fin 10)) (Fin 5)))))])))
           | _ \<Rightarrow> Inl TypeError))"

definition forecast :: "env \<Rightarrow> (string \<times> jsval) list \<Rightarrow> outcome \<times> nat" where
  "forecast e body =
     (let currentGlucose = get_field body ''currentGlucose'' in
      if \<not> to_boolean currentGlucose then (invalid_glucose, 0)
      else
        (case isNaN (number_to_string e) currentGlucose of
           Inl err \<Rightarrow> (Uncaught err, 0)
         | Inr True \<Rightarrow> (invalid_glucose, 0)
         | Inr False \<Rightarrow>
             (case template [currentGlucose] of
                Inl err \<Rightarrow> (Uncaught err, 0)
              | Inr _ \<Rightarrow>
                  (case forecast_try e currentGlucose of
                     Inl err \<Rightarrow> (Responded 500 (Obj [(''error'', Str ''Forecast failed'')]), 1)
                   | Inr ok \<Rightarrow> (Responded 200 ok, 1)))))"

section \<open>POST /summarize\<close>

text \<open>
  The whole handler is inside \<^verbatim>\<open>try\<close>. \<^verbatim>\<open>JSON.stringify(values)\<close> does not throw on
  a value that came out of a JSON body.
\<close>

definition summarize :: "env \<Rightarrow> (string \<times> jsval) list \<Rightarrow> outcome \<times> nat" where
  "summarize e body =
     (let values = get_field body ''values'' in
      if \<not> to_boolean values
      then (Responded 400 (Obj [(''message'', Str ''No values provided'')]), 0)
      else
        (case reply e of
           Failed \<Rightarrow> (Responded 500 (Obj [(''message'', Str ''Error generating summary'')]), 1)
         | Content c \<Rightarrow>
             (case c of
                Str text \<Rightarrow> (Responded 200 (Obj [(''summary'', Str (trim text))]), 1)
              | _ \<Rightarrow> (Responded 500 (Obj [(''message'', Str ''Error generating summary'')]), 1))))"

section \<open>JSON.parse\<close>

text \<open>
  \<^verbatim>\<open>JSON.parse\<close> as a recursive-descent parser of the JSON grammar (RFC 8259): the
  result is \<open>None\<close> where JavaScript throws a SyntaxError. \<open>parse_value\<close> reads one
  value and returns it with the rest of the text; \<open>parse_elements\<close> and
  \<open>parse_members\<close> read the inside of an array and of an object. A member that repeats
  a name replaces the earlier value. An escape \<^verbatim>\<open>\uXXXX\<close> above 00FF names a code unit
  that the strings of this model do not have; the parser refuses it.

  The tests \<open>length r < length s\<close> before the recursive calls make the recursion
  evidently terminating; a value that is read always consumes text, so they never fail
  (lemmas \<open>parse_value_unguarded\<close>, \<open>parse_elements_unguarded\<close> and
  \<open>parse_members_unguarded\<close> below).
\<close>

definition json_ws :: "char \<Rightarrow> bool" where
  "json_ws c = (c \<in> set [CHR 0x20, CHR 0x09, CHR 0x0A, CHR 0x0D])"

definition skip_ws :: "string \<Rightarrow> string" where
  "skip_ws s = dropWhile json_ws s"

definition unescape :: "char \<Rightarrow> char option" where
  "unescape c =
     (if c = CHR 0x22 \<or> c = CHR 0x5C \<or> c = CHR ''/'' then Some c
      else if c = CHR ''b'' then Some (CHR 0x08)
      else if c = CHR ''f'' then Some (CHR 0x0C)
      else if c = CHR ''n'' then Some (CHR 0x0A)
      else if c = CHR ''r'' then Some (CHR 0x0D)
      else if c = CHR ''t'' then Some (CHR 0x09)
      else None)"

definition hex4 :: "string \<Rightarrow> nat option" where
  "hex4 hs =
     (if length hs = 4 \<and> list_all (\<lambda>h. radix_digit h < 16) hs
      then Some (foldl (\<lambda>a h. 16 * a + radix_digit h) 0 hs) else None)"

fun json_string :: "string \<Rightarrow> (string \<times> string) option" where
  "json_string [] = None"
| "json_string (c # r) =
     (if c = CHR 0x22 then Some ([], r)
      else if (of_char c :: nat) < 32 then None
      else if c = CHR 0x5C then
        (case r of
           [] \<Rightarrow> None
         | x # r1 \<Rightarrow>
             if x = CHR ''u'' then
               (case hex4 (take 4 r1) of
                  None \<Rightarrow> None
                | Some n \<Rightarrow>
                    if n < 256
                    then map_option (\<lambda>(t, rest). (char_of n # t, rest)) (json_string (drop 4 r1))
                    else None)
             else
               (case unescape x of
                  None \<Rightarrow> None
                | Some u \<Rightarrow> map_option (\<lambda>(t, rest). (u # t, rest)) (json_string r1)))
      else map_option (\<lambda>(t, rest). (c # t, rest)) (json_string r))"

definition json_number :: "string \<Rightarrow> (jsnum \<times> string) option" where
  "json_number s =
     (let neg = (case s of [] \<Rightarrow> False | c # _ \<Rightarrow> c = CHR ''-'');
          u = (if neg then tl s else s);
          ip = takeWhile is_digit u;
          r1 = dropWhile is_digit u;
          fp = (case r1 of [] \<Rightarrow> [] | d # r2 \<Rightarrow> if d = CHR ''.'' then takeWhile is_digit r2 else []);
          r3 = (case r1 of [] \<Rightarrow> r1 | d # r2 \<Rightarrow> if d = CHR ''.'' then dropWhile is_digit r2 else r1)
      in if ip = [] \<or> (1 < length ip \<and> hd ip = CHR ''0'') then None
         else if (case r1 of [] \<Rightarrow> False | d # _ \<Rightarrow> d = CHR ''.'') \<and> fp = [] then None
         else (case exponent_part r3 of
                 (e, r4) \<Rightarrow>
                   (let m = scale10 (real (digits_val (ip @ fp))) (e - int (length fp))
                    in Some (Fin (if neg then - m else m), r4))))"

definition set_member :: "(string \<times> jsval) list \<Rightarrow> string \<Rightarrow> jsval \<Rightarrow> (string \<times> jsval) list" where
  "set_member kvs k v =
     (if k \<in> set (map fst kvs)
      then map (\<lambda>(k', v'). if k' = k then (k', v) else (k', v')) kvs
      else kvs @ [(k, v)])"

function parse_value :: "string \<Rightarrow> (jsval \<times> string) option"
  and parse_elements :: "jsval list \<Rightarrow> string \<Rightarrow> (jsval \<times> string) option"
  and parse_members :: "(string \<times> jsval) list \<Rightarrow> string \<Rightarrow> (jsval \<times> string) option"
where
  "parse_value s =
     (case skip_ws s of
        [] \<Rightarrow> None
      | c # r \<Rightarrow>
          if c = CHR ''{'' then
            (case skip_ws r of
               [] \<Rightarrow> None
             | d # r' \<Rightarrow> if d = CHR ''}'' then Some (Obj [], r')
                          else if length r < length s then parse_members [] r else None)
          else if c = CHR ''['' then
            (case skip_ws r of
               [] \<Rightarrow> None
             | d # r' \<Rightarrow> if d = CHR '']'' then Some (Arr [], r')
                          else if length r < length s then parse_elements [] r else None)
          else if c = CHR 0x22 then map_option (\<lambda>(t, rest). (Str t, rest)) (json_string r)
          else if starts_with ''true'' (c # r) then Some (Bool True, drop 4 (c # r))
          else if starts_with ''false'' (c # r) then Some (Bool False, drop 5 (c # r))
          else if starts_with ''null'' (c # r) then Some (Null, drop 4 (c # r))
          else map_option (\<lambda>(n, rest). (Num n, rest)) (json_number (c # r)))"
| "parse_elements acc s =
     (case parse_value s of
        None \<Rightarrow> None
      | Some (v, r) \<Rightarrow>
          (case skip_ws r of
             [] \<Rightarrow> None
           | c # r' \<Rightarrow>
               if c = CHR '','' then
                 (if length r' < length s then parse_elements (acc @ [v]) r' else None)
               else if c = CHR '']'' then Some (Arr (acc @ [v]), r')
               else None))"
| "parse_members acc s =
     (case skip_ws s of
        [] \<Rightarrow> None
      | q # r \<Rightarrow>
          if q = CHR 0x22 then
            (case json_string r of
               None \<Rightarrow> None
             | Some (k, r1) \<Rightarrow>
                 (case skip_ws r1 of
                    [] \<Rightarrow> None
                  | c # r2 \<Rightarrow>
                      if c = CHR '':'' \<and> length r2 < length s then
                        (case parse_value r2 of
                           None \<Rightarrow> None
                         | Some (v, r3) \<Rightarrow>
                             (case skip_ws r3 of
                                [] \<Rightarrow> None
                              | d # r4 \<Rightarrow>
                                  if d = CHR '','' then
                                    (if length r4 < length s
                                     then parse_members (set_member acc k v) r4 else None)
                                  else if d = CHR ''}'' then Some (Obj (set_member acc k v), r4)
                                  else None))
                      else None))
          else None)"
  by pat_completeness auto
termination
  by (relation "measure (\<lambda>x. case x of
        Inl s \<Rightarrow> 2 * length s
      | Inr (Inl (acc, s)) \<Rightarrow> 2 * length s + 1
      | Inr (Inr (acc, s)) \<Rightarrow> 2 * length s + 1)") auto

declare parse_value.simps [simp del] parse_elements.simps [simp del] parse_members.simps [simp del]

definition JSON_parse :: "string \<Rightarrow> jsval option" where
  "JSON_parse s =
     (case parse_value s of
        None \<Rightarrow> None
      | Some (v, r) \<Rightarrow> if skip_ws r = [] then Some v else None)"

section \<open>POST /predict\<close>

text \<open>
  Sequencing of steps that may throw: the first error ends the computation, as an
  exception does.
\<close>

definition attempt :: "jserror + 'a \<Rightarrow> ('a \<Rightarrow> jserror + 'b) \<Rightarrow> jserror + 'b" where
  "attempt r f = (case r of Inl err \<Rightarrow> Inl err | Inr x \<Rightarrow> f x)"

text \<open>\<^verbatim>\<open>Array.isArray(v)\<close>, and the elements of an array (\<^verbatim>\<open>v.length\<close> is their number).\<close>

definition is_array :: "jsval \<Rightarrow> bool" where
  "is_array v = (case v of Arr xs \<Rightarrow> True | _ \<Rightarrow> False)"

definition elements :: "jsval \<Rightarrow> jsval list" where
  "elements v = (case v of Arr xs \<Rightarrow> xs | _ \<Rightarrow> [])"

text \<open>
  \<^verbatim>\<open>v?.toLowerCase().includes(needle)\<close>: undefined (falsy) for undefined and null,
  the test for a string, and a TypeError for any other value, which has no callable
  \<^verbatim>\<open>toLowerCase\<close>.
\<close>

definition lower_includes :: "jsval \<Rightarrow> string \<Rightarrow> jserror + bool" where
  "lower_includes v needle =
     (case v of
        Undefined \<Rightarrow> Inr False
      | Null \<Rightarrow> Inr False
      | Str s \<Rightarrow> Inr (str_includes (toLowerCase s) needle)
      | _ \<Rightarrow> Inl TypeError)"

text \<open>
  Lines 64 to 69: \<^verbatim>\<open>let adjustment = 0\<close> and the four conditional updates.
  \<^verbatim>\<open>calories > 400\<close> compares a number with the number the left side converts to.
\<close>

definition adjustment :: "(jsnum \<Rightarrow> string) \<Rightarrow> jsval \<Rightarrow> jsval \<Rightarrow> jsval \<Rightarrow> jsval \<Rightarrow> jserror + jsnum" where
  "adjustment fmt insulinType insulinUnits calories activity =
     attempt (lower_includes insulinType ''fast'') (\<lambda>fast.
     attempt (if fast
              then attempt (to_number fmt insulinUnits) (\<lambda>u. Inr (num_sub (Fin 0) (num_mul u (Fin 3))))
              else Inr (Fin 0)) (\<lambda>a1.
     attempt (lower_includes insulinType ''long'') (\<lambda>long.
     attempt (if long
              then attempt (to_number fmt insulinUnits) (\<lambda>u. Inr (num_sub a1 (num_mul u (Fin 1.5))))
              else Inr a1) (\<lambda>a2.
     attempt (to_number fmt calories) (\<lambda>c.
     let a3 = (if num_gt c (Fin 400) then num_add a2 (Fin 15) else a2) in
     attempt (lower_includes activity ''walk'') (\<lambda>walk.
     attempt (if walk then Inr True else lower_includes activity ''run'') (\<lambda>moving.
     Inr (if moving then num_sub a3 (Fin 10) else a3))))))))"

text \<open>
  \<^verbatim>\<open>v + n\<close> for a number \<open>n\<close>: a string, an array or an object on the left makes it
  a string concatenation; undefined, null, a boolean or a number makes it an addition.
\<close>

definition plus_number :: "(jsnum \<Rightarrow> string) \<Rightarrow> jsval \<Rightarrow> jsnum \<Rightarrow> jserror + jsval" where
  "plus_number fmt v n =
     (if throws v then Inl TypeError
      else case v of
             Str s \<Rightarrow> Inr (Str (s @ fmt n))
           | Arr xs \<Rightarrow> Inr (Str (to_string fmt v @ fmt n))
           | Obj kvs \<Rightarrow> Inr (Str (to_string fmt v @ fmt n))
           | _ \<Rightarrow> attempt (to_number fmt v) (\<lambda>a. Inr (Num (num_add a n))))"

text \<open>
  Lines 61 to 72: \<^verbatim>\<open>latestGlucose\<close>, \<^verbatim>\<open>adjustment\<close>, \<^verbatim>\<open>approxForecast\<close> and
  \<^verbatim>\<open>boundedForecast = Math.max(60, Math.min(approxForecast, 250))\<close>. The request has
  passed validation, so the history has a last element.
\<close>

definition boundedForecast :: "(jsnum \<Rightarrow> string) \<Rightarrow> (string \<times> jsval) list \<Rightarrow> jserror + jsnum" where
  "boundedForecast fmt body =
     (let glucoseHistory = get_field body ''glucoseHistory'';
          latestGlucose = last (elements glucoseHistory)
      in attempt (adjustment fmt (get_field body ''insulinType'') (get_field body ''insulinUnits'')
                    (get_field body ''calories'') (get_field body ''activity'')) (\<lambda>adj.
         attempt (plus_number fmt latestGlucose adj) (\<lambda>approxForecast.
         attempt (to_number fmt approxForecast) (\<lambda>a.
         Inr (Math_max (Fin 60) (Math_min a (Fin 250)))))))"

text \<open>
  \<^verbatim>\<open>new Date(t)\<close> for a number \<open>t\<close>: the time value, \<open>None\<close> for an invalid date
  (\<open>t\<close> not finite or beyond 8.64e15 milliseconds); a fraction is truncated.
\<close>

definition time_clip :: "jsnum \<Rightarrow> int option" where
  "time_clip t =
     (case t of
        Fin x \<Rightarrow> if 8640000000000000 < \<bar>x\<bar> then None
                 else Some (if 0 \<le> x then \<lfloor>x\<rfloor> else \<lceil>x\<rceil>)
      | _ \<Rightarrow> None)"

text \<open>
  \<^verbatim>\<open>date.toTimeString().slice(0, 5)\<close>: hours and minutes of local time as
  \<^verbatim>\<open>HH:MM\<close>; for an invalid date \<^verbatim>\<open>toTimeString\<close> returns the text
  \<^verbatim>\<open>Invalid Date\<close> and does not throw.
\<close>

definition two_digits :: "nat \<Rightarrow> string" where
  "two_digits n = [char_of (48 + n div 10), char_of (48 + n mod 10)]"

definition time_prefix :: "(int \<Rightarrow> int) \<Rightarrow> int option \<Rightarrow> string" where
  "time_prefix tz tv =
     (case tv of
        None \<Rightarrow> slice ''Invalid Date'' 0 5
      | Some t \<Rightarrow>
          (let local = t + tz t
           in two_digits (nat (local div 3600000 mod 24)) @ '':'' @
              two_digits (nat (local div 60000 mod 60))))"

text \<open>Lines 134 to 155: the alert chosen by \<^verbatim>\<open>parsed.risk_type === ...\<close>.\<close>

definition main_alert :: "jsval \<Rightarrow> jsval" where
  "main_alert risk_type =
     (if risk_type = Str ''Hypo risk'' then
        Obj [(''type'', Str ''Predictive Alert!''),
             (''message'', Str ''Risk of Hypoglycemia forecasted. Check your BG and take necessary actions (consume fast-acting carbs).''),
             (''color'', Str ''#e74c3c'')]
      else if risk_type = Str ''Hyper risk'' then
        Obj [(''type'', Str ''Warning!''),
             (''message'', Str ''Risk of Hyperglycemia forecasted. Consider monitoring and adjusting insulin if advised.''),
             (''color'', Str ''#f1c40f'')]
      else
        Obj [(''type'', Str ''Stable''),
             (''message'', Str ''No immediate risk detected. Continue monitoring as usual.''),
             (''color'', Str ''#2ecc71'')])"

text \<open>
  Lines 115 to 162, for the object \<open>parsed0\<close> that \<^verbatim>\<open>JSON.parse\<close> returned: the two
  fallbacks, the alert and the body of the 200 response.
\<close>

definition predict_respond :: "env \<Rightarrow> jsnum \<Rightarrow> (string \<times> jsval) list \<Rightarrow> jserror + jsval" where
  "predict_respond e bounded parsed0 =
     attempt (isNaN (number_to_string e) (get_field parsed0 ''forecast_mgdl'')) (\<lambda>nan.
     let parsed1 = (if nan then set_member parsed0 ''forecast_mgdl'' (Num bounded) else parsed0) in
     attempt (if \<not> to_boolean (get_field parsed1 ''risk_type'')
              then attempt (to_number (number_to_string e) (get_field parsed1 ''forecast_mgdl'')) (\<lambda>f.
                     Inr (set_member parsed1 ''risk_type''
                       (Str (if num_lt f (Fin 100) then ''Hypo risk''
                             else if num_gt f (Fin 150) then ''Hyper risk''
                             else ''Stable''))))
              else Inr parsed1) (\<lambda>parsed.
     attempt (to_number (number_to_string e) (get_field parsed ''forecast_minutes'')) (\<lambda>minutes.
     let alertTime = time_clip (num_add (Fin (of_int (date_now e))) (num_mul minutes (Fin 60000)));
         alertList = Arr [Obj [(''risk'', get_field parsed ''risk_type''),
                               (''in_minutes'', get_field parsed ''forecast_minutes''),
                               (''time'', Str (time_prefix (tz_offset e) alertTime))]]
     in Inr (Obj [(''forecast_mgdl'', get_field parsed ''forecast_mgdl''),
                  (''main_alert'', main_alert (get_field parsed ''risk_type'')),
                  (''alerts'', alertList),
                  (''baseline'', Num bounded)]))))"

text \<open>
  Lines 110 to 112: the text from the first opening brace to the last closing brace of
  the reply.
\<close>

definition jsonString :: "string \<Rightarrow> string" where
  "jsonString text =
     (let jsonStart = indexOf text (CHR ''{'');
          jsonEnd = lastIndexOf text (CHR ''}'')
      in slice text jsonStart (jsonEnd + 1))"

text \<open>
  The \<^verbatim>\<open>try\<close> block. A reply whose content is not a string ends in the
  \<^verbatim>\<open>catch\<close> block on every path. The text handed to \<^verbatim>\<open>JSON.parse\<close> is empty,
  a lone closing brace or begins with an opening brace, so a result is an object
  (lemma \<open>jsonString_parses_to_object\<close> below) and the last branch is never taken.
\<close>

definition predict_try :: "env \<Rightarrow> jsnum \<Rightarrow> jserror + jsval" where
  "predict_try e bounded =
     (case reply e of
        Failed \<Rightarrow> Inl ProviderError
      | Content c \<Rightarrow>
          (case c of
             Str text \<Rightarrow>
               (case JSON_parse (jsonString text) of
                  None \<Rightarrow> Inl SyntaxError
                | Some p \<Rightarrow>
                    (case p of
                       Obj parsed \<Rightarrow> predict_respond e bounded parsed
                     | _ \<Rightarrow> Inl TypeError))
           | _ \<Rightarrow> Inl TypeError))"

text \<open>
  The handler. The baseline and the prompt are computed before \<^verbatim>\<open>try\<close>: an
  exception there is not caught.
\<close>

definition predict :: "env \<Rightarrow> (string \<times> jsval) list \<Rightarrow> outcome \<times> nat" where
  "predict e body =
     (let glucoseHistory = get_field body ''glucoseHistory'' in
      if \<not> to_boolean glucoseHistory \<or> \<not> is_array glucoseHistory \<or> length (elements glucoseHistory) = 0
      then (Responded 400 (Obj [(''error'', Str ''Glucose history is required'')]), 0)
      else
        (case boundedForecast (number_to_string e) body of
           Inl err \<Rightarrow> (Uncaught err, 0)
         | Inr bounded \<Rightarrow>
             (case template [glucoseHistory, get_field body ''insulinType'', get_field body ''insulinUnits'',
                             get_field body ''calories'', get_field body ''activity''] of
                Inl err \<Rightarrow> (Uncaught err, 0)
              | Inr _ \<Rightarrow>
                  (case predict_try e bounded of
                     Inl err \<Rightarrow> (Responded 500 (Obj [(''error'', Str ''Prediction failed'')]), 1)
                   | Inr ok \<Rightarrow> (Responded 200 ok, 1)))))"

text \<open>Reading a member of a response body.\<close>

definition field_of :: "jsval \<Rightarrow> string \<Rightarrow> jsval" where
  "field_of v k = (case v of Obj kvs \<Rightarrow> get_field kvs k | _ \<Rightarrow> Undefined)"

section \<open>The baseline as the specification words it\<close>






section \<open>An environment for the examples\<close>

text \<open>
  The examples run in UTC at 2023-11-14 22:13:20 (1700000000000 ms), with the random
  draw 0.95. \<open>number_text\<close> is the text of a number where exact reals have one that is
  easy to give: the two infinities, \<^verbatim>\<open>NaN\<close> and the integers (below 1e21 in
  magnitude, where JavaScript switches to exponents); no example asks for another.
\<close>

fun nat_text :: "nat \<Rightarrow> string" where
  "nat_text n =
     (if n < 10 then [char_of (48 + n)] else nat_text (n div 10) @ [char_of (48 + n mod 10)])"

definition number_text :: "jsnum \<Rightarrow> string" where
  "number_text n =
     (case n of
        NaN \<Rightarrow> ''NaN''
      | PosInf \<Rightarrow> ''Infinity''
      | NegInf \<Rightarrow> ''-Infinity''
      | Fin x \<Rightarrow> (if x < 0 then ''-'' else []) @ nat_text (nat \<lfloor>\<bar>x\<bar>\<rfloor>))"

definition utc :: "int \<Rightarrow> int" where
  "utc t = 0"

definition example_env :: "completion \<Rightarrow> env" where
  "example_env r =
     \<lparr>reply = r, math_random = 0.95, date_now = 1700000000000, tz_offset = utc,
      number_to_string = number_text\<rparr>"

section \<open>Properties of the parser\<close>

text \<open>A value that is read consumes text.\<close>

lemma skip_ws_length: "length (skip_ws s) \<le> length s"
  by (simp add: skip_ws_def length_dropWhile_le)

lemma skip_ws_Cons: "skip_ws s = c # r \<Longrightarrow> length r < length s"
  using skip_ws_length [of s] by simp

lemma json_string_shorter: "json_string s = Some (t, r) \<Longrightarrow> length r < length s"
proof (induction s arbitrary: t rule: json_string.induct)
  case 1
  then show ?case by simp
next
  case (2 c r0)
  then show ?case
    by (fastforce split: if_splits list.splits option.splits)
qed

lemma exponent_part_length: "exponent_part s = (e, r) \<Longrightarrow> length r \<le> length s"
  by (auto simp: exponent_part_def Let_def split: list.splits if_splits
      intro: le_trans [OF length_dropWhile_le])

lemma dropWhile_shorter: "takeWhile P s \<noteq> [] \<Longrightarrow> length (dropWhile P s) < length s"
  by (induction s) (auto simp: le_imp_less_Suc length_dropWhile_le split: if_splits)

lemma json_number_shorter:
  assumes "json_number s = Some (n, r)"
  shows "length r < length s"
proof -
  define u where "u = (if (case s of [] \<Rightarrow> False | c # _ \<Rightarrow> c = CHR ''-'') then tl s else s)"
  define r1 where "r1 = dropWhile is_digit u"
  define r3 where "r3 = (case r1 of [] \<Rightarrow> r1 | d # r2 \<Rightarrow> if d = CHR ''.'' then dropWhile is_digit r2 else r1)"
  have unfolded: "json_number s =
     (let ip = takeWhile is_digit u;
          fp = (case r1 of [] \<Rightarrow> [] | d # r2 \<Rightarrow> if d = CHR ''.'' then takeWhile is_digit r2 else [])
      in if ip = [] \<or> (1 < length ip \<and> hd ip = CHR ''0'') then None
         else if (case r1 of [] \<Rightarrow> False | d # _ \<Rightarrow> d = CHR ''.'') \<and> fp = [] then None
         else (case exponent_part r3 of
                 (e, r4) \<Rightarrow>
                   (let m = scale10 (real (digits_val (ip @ fp))) (e - int (length fp))
                    in Some (Fin (if (case s of [] \<Rightarrow> False | c # _ \<Rightarrow> c = CHR ''-'') then - m else m), r4))))"
    unfolding json_number_def u_def r1_def r3_def Let_def ..
  from assms have ip: "takeWhile is_digit u \<noteq> []"
    unfolding unfolded Let_def by (auto split: if_splits)
  from assms obtain e where e: "exponent_part r3 = (e, r)"
    unfolding unfolded Let_def by (auto split: if_splits prod.splits)
  have "length u \<le> length s" by (simp add: u_def)
  moreover have "length r1 < length u" unfolding r1_def using ip by (rule dropWhile_shorter)
  moreover have "length r3 \<le> length r1"
    by (auto simp: r3_def split: list.splits intro: le_trans [OF length_dropWhile_le])
  moreover have "length r \<le> length r3" using e by (rule exponent_part_length)
  ultimately show ?thesis by simp
qed

lemma parse_consumes:
  "parse_value s = Some (v, r) \<Longrightarrow> length r < length s"
  "parse_elements acc s1 = Some (v1, r1) \<Longrightarrow> length r1 < length s1"
  "parse_members acc' s2 = Some (v2, r2) \<Longrightarrow> length r2 < length s2"
proof (induction s and acc s1 and acc' s2 arbitrary: v r and v1 r1 and v2 r2
    rule: parse_value_parse_elements_parse_members.induct)
  case (1 s)
  from "1.prems" show ?case
    apply (subst (asm) parse_value.simps)
    apply (auto simp del: starts_with.simps split: list.splits if_splits
        dest!: json_string_shorter json_number_shorter dest: skip_ws_Cons)
       apply (drule skip_ws_Cons)+
       apply simp
      apply (frule (4) "1.IH"(1) [OF _ refl])
      apply simp
     apply (drule skip_ws_Cons)+
     apply simp
    apply (frule "1.IH"(2) [OF _ _ refl])
         apply simp
        apply assumption+
    apply simp
    done
next
  case (2 acc s)
  from "2.prems" show ?case
    apply (subst (asm) parse_elements.simps)
    apply (auto split: list.splits if_splits option.splits)
     apply (frule (3) "2.IH"(2) [OF _ refl _ refl])
     apply simp
    apply (drule "2.IH"(1))
    apply (drule skip_ws_Cons)
    apply simp
    done
next
  case (3 acc s)
  from "3.prems" show ?case
    apply (subst (asm) parse_members.simps)
    apply (auto split: list.splits if_splits option.splits)
     apply (frule "3.IH"(2) [OF _ refl _ refl _ _ _ refl _ refl])
            apply assumption+
          apply simp
         apply assumption+
     apply simp
    apply (frule "3.IH"(1) [OF _ refl _ refl])
        apply assumption+
      apply simp
     apply assumption
    apply (drule skip_ws_Cons [of _ "CHR ''}''"])
    apply simp
    done
qed

text \<open>The length tests of the parser never fail: the same equations hold without them.\<close>

lemma parse_value_unguarded:
  "parse_value s =
     (case skip_ws s of
        [] \<Rightarrow> None
      | c # r \<Rightarrow>
          if c = CHR ''{'' then
            (case skip_ws r of
               [] \<Rightarrow> None
             | d # r' \<Rightarrow> if d = CHR ''}'' then Some (Obj [], r') else parse_members [] r)
          else if c = CHR ''['' then
            (case skip_ws r of
               [] \<Rightarrow> None
             | d # r' \<Rightarrow> if d = CHR '']'' then Some (Arr [], r') else parse_elements [] r)
          else if c = CHR 0x22 then map_option (\<lambda>(t, rest). (Str t, rest)) (json_string r)
          else if starts_with ''true'' (c # r) then Some (Bool True, drop 4 (c # r))
          else if starts_with ''false'' (c # r) then Some (Bool False, drop 5 (c # r))
          else if starts_with ''null'' (c # r) then Some (Null, drop 4 (c # r))
          else map_option (\<lambda>(n, rest). (Num n, rest)) (json_number (c # r)))"
  apply (subst parse_value.simps)
  apply (auto simp del: starts_with.simps split: list.splits dest: skip_ws_Cons)
  done

lemma parse_elements_unguarded:
  "parse_elements acc s =
     (case parse_value s of
        None \<Rightarrow> None
      | Some (v, r) \<Rightarrow>
          (case skip_ws r of
             [] \<Rightarrow> None
           | c # r' \<Rightarrow>
               if c = CHR '','' then parse_elements (acc @ [v]) r'
               else if c = CHR '']'' then Some (Arr (acc @ [v]), r')
               else None))"
  apply (subst parse_elements.simps)
  apply (auto split: option.splits list.splits)
  apply (drule parse_consumes(1))
  apply (drule skip_ws_Cons)
  apply simp
  done

lemma parse_members_unguarded:
  "parse_members acc s =
     (case skip_ws s of
        [] \<Rightarrow> None
      | q # r \<Rightarrow>
          if q = CHR 0x22 then
            (case json_string r of
               None \<Rightarrow> None
             | Some (k, r1) \<Rightarrow>
                 (case skip_ws r1 of
                    [] \<Rightarrow> None
                  | c # r2 \<Rightarrow>
                      if c = CHR '':'' then
                        (case parse_value r2 of
                           None \<Rightarrow> None
                         | Some (v, r3) \<Rightarrow>
                             (case skip_ws r3 of
                                [] \<Rightarrow> None
                              | d # r4 \<Rightarrow>
                                  if d = CHR '','' then parse_members (set_member acc k v) r4
                                  else if d = CHR ''}'' then Some (Obj (set_member acc k v), r4)
                                  else None))
                      else None))
          else None)"
proof -
  have key: "length r2 < length s"
    if "skip_ws s = q # r" "json_string r = Some (k, r1)" "skip_ws r1 = c # r2" for q r k r1 c r2
    using skip_ws_Cons [OF that(1)] json_string_shorter [OF that(2)] skip_ws_Cons [OF that(3)]
    by simp
  have val: "length r4 < length s"
    if "length r2 < length s" "parse_value r2 = Some (v, r3)" "skip_ws r3 = d # r4" for r2 v r3 d r4
    using that(1) parse_consumes(1) [OF that(2)] skip_ws_Cons [OF that(3)]
    by simp
  show ?thesis
    apply (subst parse_members.simps)
    apply (auto split: list.splits option.splits dest: key val)
    done
qed

lemma parse_members_obj:
  "parse_members acc s = Some (v, r) \<Longrightarrow> \<exists>kvs. v = Obj kvs"
proof (induction "length s" arbitrary: acc s rule: less_induct)
  case less
  from less.prems show ?case
    apply (subst (asm) parse_members.simps)
    apply (auto split: list.splits if_splits option.splits)
    apply (drule (1) less.hyps)
    apply simp
    done
qed

lemma skip_ws_brace: "skip_ws (CHR ''{'' # r) = CHR ''{'' # r"
  by (simp add: skip_ws_def json_ws_def)

lemma parse_value_brace:
  assumes "parse_value (CHR ''{'' # t) = Some (v, r)"
  shows "\<exists>kvs. v = Obj kvs"
  using assms
  apply (subst (asm) parse_value.simps)
  apply (auto simp: skip_ws_brace split: list.splits if_splits dest: parse_members_obj)
  done

lemma indexOf_absent: "c \<notin> set s \<Longrightarrow> indexOf s c = - 1"
  by (induction s) auto

lemma indexOf_present:
  "c \<in> set s \<Longrightarrow> 0 \<le> indexOf s c \<and> nat (indexOf s c) < length s \<and> s ! nat (indexOf s c) = c"
  by (induction s) (auto simp: Let_def nat_add_distrib)

lemma indexOf_bounds: "- 1 \<le> indexOf s c \<and> indexOf s c < int (length s)"
  by (induction s) (auto simp: Let_def)

lemma indexOf_zero: "indexOf s c = 0 \<Longrightarrow> \<exists>t. s = c # t"
  using indexOf_bounds [of "tl s" c]
  by (cases s) (auto simp: Let_def split: if_splits)

lemma lastIndexOf_bounds: "- 1 \<le> lastIndexOf s c \<and> lastIndexOf s c < int (length s)"
  using indexOf_bounds [of "rev s" c] by (auto simp: lastIndexOf_def Let_def)

lemma lastIndexOf_last:
  assumes "s \<noteq> []" and "lastIndexOf s c = int (length s) - 1"
  shows "last s = c"
proof -
  from assms have "indexOf (rev s) c = 0"
    by (auto simp: lastIndexOf_def Let_def split: if_splits)
  then obtain t where "rev s = c # t" using indexOf_zero by blast
  then have "s = rev t @ [c]" by (simp add: rev_swap)
  then show ?thesis by simp
qed

lemma jsonString_slice:
  "jsonString raw =
     (let i = indexOf raw (CHR ''{''); j = lastIndexOf raw (CHR ''}'');
          lo = (if i < 0 then max (int (length raw) - 1) 0 else i)
      in take (nat (j + 1 - lo)) (drop (nat lo) raw))"
proof (cases "indexOf raw (CHR ''{'') < 0")
  case True
  with indexOf_bounds [of raw "CHR ''{''"] have "indexOf raw (CHR ''{'') = - 1" by simp
  then show ?thesis
    using lastIndexOf_bounds [of raw "CHR ''}''"]
    by (simp add: jsonString_def slice_def Let_def min_def)
next
  case False
  then show ?thesis
    using indexOf_bounds [of raw "CHR ''{''"] lastIndexOf_bounds [of raw "CHR ''}''"]
    by (simp add: jsonString_def slice_def Let_def min_def)
qed

lemma jsonString_shape:
  "jsonString raw = [] \<or> jsonString raw = ''}'' \<or> (\<exists>t. jsonString raw = CHR ''{'' # t)"
proof (cases "CHR ''{'' \<in> set raw")
  case True
  from indexOf_present [OF True]
  have i: "0 \<le> indexOf raw (CHR ''{'')" "nat (indexOf raw (CHR ''{'')) < length raw"
    "raw ! nat (indexOf raw (CHR ''{'')) = CHR ''{''" by simp_all
  have "drop (nat (indexOf raw (CHR ''{''))) raw =
      CHR ''{'' # drop (Suc (nat (indexOf raw (CHR ''{'')))) raw"
    using i(2,3) by (metis Cons_nth_drop_Suc)
  moreover have "jsonString raw =
      take (nat (lastIndexOf raw (CHR ''}'') + 1 - indexOf raw (CHR ''{'')))
        (drop (nat (indexOf raw (CHR ''{''))) raw)"
    using i(1) by (simp add: jsonString_slice Let_def)
  ultimately show ?thesis
    by (cases "nat (lastIndexOf raw (CHR ''}'') + 1 - indexOf raw (CHR ''{''))") simp_all
next
  case False
  then have start: "indexOf raw (CHR ''{'') = - 1" by (rule indexOf_absent)
  show ?thesis
  proof (cases "raw = []")
    case True
    then show ?thesis by (simp add: jsonString_def slice_def Let_def)
  next
    case nonempty: False
    have e: "- 1 \<le> lastIndexOf raw (CHR ''}'')" "lastIndexOf raw (CHR ''}'') < int (length raw)"
      using lastIndexOf_bounds by simp_all
    have tail: "drop (length raw - 1) raw = [last raw]"
      using nonempty by (metis append_butlast_last_id append_eq_conv_conj length_butlast)
    have lo: "max (int (length raw) - 1) 0 = int (length raw) - 1"
      "nat (int (length raw) - 1) = length raw - 1"
      using nonempty by (simp_all add: Suc_leI nat_diff_distrib')
    have sliced: "jsonString raw =
        take (nat (lastIndexOf raw (CHR ''}'') + 1 - (int (length raw) - 1))) [last raw]"
      using start tail by (simp add: jsonString_slice Let_def lo del: One_nat_def)
    show ?thesis
    proof (cases "lastIndexOf raw (CHR ''}'') = int (length raw) - 1")
      case True
      then have "last raw = CHR ''}''" using nonempty lastIndexOf_last by blast
      with True sliced show ?thesis by simp
    next
      case False
      with e have "lastIndexOf raw (CHR ''}'') + 1 - (int (length raw) - 1) \<le> 0" by simp
      with sliced show ?thesis by simp
    qed
  qed
qed

lemma jsonString_parses_to_object:
  assumes "JSON_parse (jsonString raw) = Some v"
  shows "\<exists>kvs. v = Obj kvs"
proof -
  have empty: "JSON_parse [] = None"
    by (simp add: JSON_parse_def parse_value.simps skip_ws_def)
  have closing: "JSON_parse ''}'' = None"
    by code_simp
  from jsonString_shape [of raw] assms empty closing
  obtain t where "jsonString raw = CHR ''{'' # t" by auto
  with assms show ?thesis
    by (auto simp: JSON_parse_def split: option.splits if_splits dest: parse_value_brace)
qed

section \<open>Properties of /forecast\<close>

lemma to_number_not_throws: "to_number fmt v = Inr n \<Longrightarrow> \<not> throws v"
  by (auto simp: to_number_def split: if_splits)


text \<open>
  A request is accepted by the validation of /forecast when its \<^verbatim>\<open>currentGlucose\<close> is
  truthy and converts to a number that is not \<^verbatim>\<open>NaN\<close>; the handler then reaches the
  provider call.
\<close>

lemma forecast_accepted:
  assumes "get_field body ''currentGlucose'' = cg"
    and "to_boolean cg"
    and "to_number (number_to_string e) cg = Inr n"
    and "n \<noteq> NaN"
  shows "forecast e body =
     (case forecast_try e cg of
        Inl err \<Rightarrow> (Responded 500 (Obj [(''error'', Str ''Forecast failed'')]), 1)
      | Inr ok \<Rightarrow> (Responded 200 ok, 1))"
  using assms to_number_not_throws [OF assms(3)]
  by (simp add: forecast_def isNaN_def template_def)



text \<open>
  C6: for every numeric \<^verbatim>\<open>currentGlucose\<close> accepted by validation, if the provider's
  text parses to a number strictly between 40 and 400, the forecast returned is exactly
  that number.
\<close>

theorem forecast_plausible_unchanged:
  assumes cg: "get_field body ''currentGlucose'' = cg"
    and truthy: "to_boolean cg"
    and numeric: "to_number (number_to_string e) cg = Inr n" "n \<noteq> NaN"
    and reply: "reply e = Content (Str text)"
    and parsed: "parseFloat (trim text) = Fin p"
    and plausible: "40 < p" "p < 400"
  shows "forecast e body = (Responded 200 (Obj [(''forecast'', Num (Fin p))]), 1)"
proof -
  have block: "forecast_try e cg = Inr (Obj [(''forecast'', Num (Fin p))])"
    using reply parsed plausible by (simp add: forecast_try_def num_gt_def)
  show ?thesis
    using forecast_accepted [OF cg truthy numeric] block by simp
qed

theorem forecast_plausible_unchanged_witness:
  "forecast (example_env (Content (Str '' 118.5 mg/dL''))) [(''currentGlucose'', Num (Fin 120))] =
     (Responded 200 (Obj [(''forecast'', Num (Fin 118.5))]), 1)"
proof -
  let ?e = "example_env (Content (Str '' 118.5 mg/dL''))"
  let ?body = "[(''currentGlucose'', Num (Fin 120))]"
  have cg: "get_field ?body ''currentGlucose'' = Num (Fin 120)"
    by (simp add: get_field_def)
  have truthy: "to_boolean (Num (Fin 120))" by simp
  have numeric: "to_number (number_to_string ?e) (Num (Fin 120)) = Inr (Fin 120)" "Fin 120 \<noteq> NaN"
    by (simp_all add: to_number_def)
  have reply: "reply ?e = Content (Str '' 118.5 mg/dL'')" by (simp add: example_env_def)
  have parsed: "parseFloat (trim '' 118.5 mg/dL'') = Fin 118.5" by code_simp
  have plausible: "(40::real) < 118.5" "(118.5::real) < 400" by simp_all
  from forecast_plausible_unchanged [OF cg truthy numeric reply parsed plausible]
  show ?thesis .
qed

text \<open>
  The validation of /forecast answers 400 without calling the provider whenever
  \<^verbatim>\<open>currentGlucose\<close> is falsy, and whenever it converts to \<^verbatim>\<open>NaN\<close>.
\<close>

lemma forecast_rejects_falsy:
  "\<not> to_boolean (get_field body ''currentGlucose'') \<Longrightarrow> forecast e body = (invalid_glucose, 0)"
  by (simp add: forecast_def)

lemma forecast_rejects_nan:
  "to_number (number_to_string e) (get_field body ''currentGlucose'') = Inr NaN \<Longrightarrow>
   forecast e body = (invalid_glucose, 0)"
  by (simp add: forecast_def isNaN_def Let_def)

text \<open>
  C7 says that every request whose \<^verbatim>\<open>currentGlucose\<close> is absent or not numeric is
  answered 400. The code misses a case: for the body
  \<^verbatim>\<open>{"currentGlucose": {"toString": 1}}\<close> the value is truthy, so \<^verbatim>\<open>isNaN\<close> is
  evaluated; converting the object to a number throws a TypeError, outside any
  \<^verbatim>\<open>try\<close>. The handler sends no response, in any environment.
\<close>

theorem forecast_object_with_toString_throws:
  "forecast e [(''currentGlucose'', Obj [(''toString'', Num (Fin 1))])] = (Uncaught TypeError, 0)"
  by (simp add: forecast_def get_field_def isNaN_def to_number_def)

theorem forecast_object_with_toString_throws_witness:
  "forecast (example_env (Content (Str ''118''))) [(''currentGlucose'', Obj [(''toString'', Num (Fin 1))])] =
     (Uncaught TypeError, 0)"
  using forecast_object_with_toString_throws [of "example_env (Content (Str ''118''))"] .

text \<open>
  C10: \<^verbatim>\<open>currentGlucose = 0\<close> is numeric, yet the handler answers 400 with the
  invalid-glucose error and never calls the provider, because the validation treats every
  falsy value as missing; the same holds for the empty string and for \<^verbatim>\<open>false\<close>.
\<close>

theorem forecast_zero_rejected:
  "(\<not> to_boolean (get_field body ''currentGlucose'') \<longrightarrow>
      forecast e body = (Responded 400 (Obj [(''error'', Str ''Invalid glucose value'')]), 0)) \<and>
   forecast e [(''currentGlucose'', Num (Fin 0))] =
      (Responded 400 (Obj [(''error'', Str ''Invalid glucose value'')]), 0) \<and>
   forecast e [(''currentGlucose'', Str '''')] =
      (Responded 400 (Obj [(''error'', Str ''Invalid glucose value'')]), 0) \<and>
   forecast e [(''currentGlucose'', Bool False)] =
      (Responded 400 (Obj [(''error'', Str ''Invalid glucose value'')]), 0)"
  by (simp add: forecast_def get_field_def invalid_glucose_def)

theorem forecast_zero_rejected_witness:
  "\<not> to_boolean (get_field [(''currentGlucose'', Num (Fin 0))] ''currentGlucose'') \<and>
   forecast (example_env (Content (Str ''118''))) [(''currentGlucose'', Num (Fin 0))] =
      (Responded 400 (Obj [(''error'', Str ''Invalid glucose value'')]), 0)"
  using forecast_zero_rejected [of "[(''currentGlucose'', Num (Fin 0))]" "example_env (Content (Str ''118''))"]
  by (simp add: get_field_def)

section \<open>Properties of /summarize\<close>

text \<open>
  C9 says that every request whose \<^verbatim>\<open>values\<close> field is present is relayed to the
  provider. The guard is \<^verbatim>\<open>!values\<close>: a field that is present and falsy, such as
  \<^verbatim>\<open>{"values": 0}\<close>, is answered 400 and the provider is not called.
\<close>

theorem summarize_present_zero_rejected:
  "summarize (example_env (Content (Str ''Risk Summary''))) [(''values'', Num (Fin 0))] =
     (Responded 400 (Obj [(''message'', Str ''No values provided'')]), 0)"
  by (simp add: summarize_def get_field_def)

text \<open>
  C9 as amended: for every request whose \<^verbatim>\<open>values\<close> field is truthy (every object,
  the empty object included, and every array) the handler calls the provider once, and
  when the provider answers with a text it returns 200 with \<^verbatim>\<open>summary\<close> equal to that
  text trimmed; when \<^verbatim>\<open>values\<close> is absent it returns 400 with a \<^verbatim>\<open>message\<close> body
  and does not call the provider.
\<close>

theorem summarize_relays_trimmed_text:
  "(to_boolean (get_field body ''values'') \<and> reply e = Content (Str text) \<longrightarrow>
      summarize e body = (Responded 200 (Obj [(''summary'', Str (trim text))]), 1)) \<and>
   (to_boolean (get_field body ''values'') \<longrightarrow> snd (summarize e body) = 1) \<and>
   (reply e = Content (Str text) \<longrightarrow>
      summarize e [(''values'', Obj [])] = (Responded 200 (Obj [(''summary'', Str (trim text))]), 1)) \<and>
   (get_field body ''values'' = Undefined \<longrightarrow>
      summarize e body = (Responded 400 (Obj [(''message'', Str ''No values provided'')]), 0))"
  by (auto simp: summarize_def get_field_def split: completion.splits jsval.splits)

theorem summarize_relays_trimmed_text_witness:
  "to_boolean (get_field [(''values'', Obj [])] ''values'') \<and>
   summarize (example_env (Content (Str ''  Risk Summary: stable  ''))) [(''values'', Obj [])] =
     (Responded 200 (Obj [(''summary'', Str ''Risk Summary: stable'')]), 1) \<and>
   summarize (example_env (Content (Str ''  Risk Summary: stable  ''))) [] =
     (Responded 400 (Obj [(''message'', Str ''No values provided'')]), 0)"
proof -
  let ?e = "example_env (Content (Str ''  Risk Summary: stable  ''))"
  have reply: "reply ?e = Content (Str ''  Risk Summary: stable  '')"
    by (simp add: example_env_def)
  have truthy: "to_boolean (get_field [(''values'', Obj [])] ''values'')"
    by (simp add: get_field_def)
  have absent: "get_field [] ''values'' = Undefined"
    by (simp add: get_field_def)
  have trimmed: "trim ''  Risk Summary: stable  '' = ''Risk Summary: stable''"
    by code_simp
  from summarize_relays_trimmed_text [of "[(''values'', Obj [])]" ?e "''  Risk Summary: stable  ''"]
    truthy reply trimmed
  have relayed: "summarize ?e [(''values'', Obj [])] =
      (Responded 200 (Obj [(''summary'', Str ''Risk Summary: stable'')]), 1)"
    by simp
  from summarize_relays_trimmed_text [of "[]" ?e "''  Risk Summary: stable  ''"] absent
  have rejected: "summarize ?e [] =
      (Responded 400 (Obj [(''message'', Str ''No values provided'')]), 0)"
    by simp
  from truthy relayed rejected show ?thesis by simp
qed

section \<open>Properties of /predict\<close>

text \<open>
  C8: for every request whose \<^verbatim>\<open>glucoseHistory\<close> is absent, not a sequence or empty,
  the handler answers 400 and the provider is never called.
\<close>

theorem predict_requires_history:
  assumes "get_field body ''glucoseHistory'' = Undefined \<or>
           \<not> is_array (get_field body ''glucoseHistory'') \<or>
           get_field body ''glucoseHistory'' = Arr []"
  shows "predict e body = (Responded 400 (Obj [(''error'', Str ''Glucose history is required'')]), 0)"
  using assms by (auto simp: predict_def is_array_def elements_def Let_def)

theorem predict_requires_history_witness:
  "predict (example_env (Content (Str ''{}''))) [(''insulinType'', Str ''fast'')] =
     (Responded 400 (Obj [(''error'', Str ''Glucose history is required'')]), 0) \<and>
   predict (example_env (Content (Str ''{}''))) [(''glucoseHistory'', Str ''120, 130'')] =
     (Responded 400 (Obj [(''error'', Str ''Glucose history is required'')]), 0) \<and>
   predict (example_env (Content (Str ''{}''))) [(''glucoseHistory'', Arr [])] =
     (Responded 400 (Obj [(''error'', Str ''Glucose history is required'')]), 0)"
proof -
  let ?e = "example_env (Content (Str ''{}''))"
  have absent: "get_field [(''insulinType'', Str ''fast'')] ''glucoseHistory'' = Undefined"
    by (simp add: get_field_def)
  have not_array: "\<not> is_array (get_field [(''glucoseHistory'', Str ''120, 130'')] ''glucoseHistory'')"
    by (simp add: get_field_def is_array_def)
  have empty: "get_field [(''glucoseHistory'', Arr [])] ''glucoseHistory'' = Arr []"
    by (simp add: get_field_def)
  show ?thesis
    using predict_requires_history [of "[(''insulinType'', Str ''fast'')]" ?e, OF disjI1 [OF absent]]
      predict_requires_history [of "[(''glucoseHistory'', Str ''120, 130'')]" ?e, OF disjI2 [OF disjI1 [OF not_array]]]
      predict_requires_history [of "[(''glucoseHistory'', Arr [])]" ?e, OF disjI2 [OF disjI2 [OF empty]]]
    by simp
qed

text \<open>Reading a member after an assignment to a member.\<close>

lemma map_of_replace:
  "map_of (map (\<lambda>(k', v'). if k' = k then (k', v) else (k', v')) kvs) x =
     (if x = k then (if k \<in> set (map fst kvs) then Some v else None) else map_of kvs x)"
proof (induction kvs)
  case Nil
  show ?case by simp
next
  case (Cons p kvs)
  obtain a b where p: "p = (a, b)" by (cases p)
  show ?case using Cons.IH by (cases "x = k") (simp_all add: p)
qed

lemma map_of_set_member: "map_of (set_member kvs k v) = (map_of kvs)(k \<mapsto> v)"
proof (cases "k \<in> set (map fst kvs)")
  case True
  then show ?thesis by (simp add: set_member_def fun_eq_iff map_of_replace)
next
  case False
  then have "map_of kvs k = None" by (simp add: map_of_eq_None_iff)
  then have "map_of (kvs @ [(k, v)]) = (map_of kvs)(k \<mapsto> v)"
    by (auto simp: map_add_def fun_eq_iff split: option.splits)
  with False show ?thesis by (simp add: set_member_def)
qed

lemma get_field_set_member:
  "get_field (set_member kvs k v) k' = (if k' = k then v else get_field kvs k')"
  by (simp add: get_field_def map_of_set_member)

text \<open>
  A request that passes validation and whose baseline and prompt are computed without an
  exception reaches the \<^verbatim>\<open>try\<close> block: the provider is called once, and the answer
  is 200 or 500.
\<close>

lemma predict_reaches_try:
  assumes "get_field body ''glucoseHistory'' = Arr hs"
    and "hs \<noteq> []"
    and "boundedForecast (number_to_string e) body = Inr b"
    and "template [Arr hs, get_field body ''insulinType'', get_field body ''insulinUnits'',
                   get_field body ''calories'', get_field body ''activity''] = Inr ()"
  shows "predict e body =
     (case predict_try e b of
        Inl err \<Rightarrow> (Responded 500 (Obj [(''error'', Str ''Prediction failed'')]), 1)
      | Inr ok \<Rightarrow> (Responded 200 ok, 1))"
  using assms by (simp add: predict_def is_array_def elements_def)

lemma predict_try_parsed:
  assumes "reply e = Content (Str text)"
    and "JSON_parse (jsonString text) = Some (Obj parsed)"
  shows "predict_try e b = predict_respond e b parsed"
  using assms by (simp add: predict_try_def)


text \<open>
  The body of the 200 response, when the conversions of \<^verbatim>\<open>forecast_mgdl\<close> and
  \<^verbatim>\<open>forecast_minutes\<close> do not throw.
\<close>

lemma predict_respond_body:
  assumes mgdl: "to_number (number_to_string e) (get_field parsed ''forecast_mgdl'') = Inr m"
    and minutes: "to_number (number_to_string e) (get_field parsed ''forecast_minutes'') = Inr mins"
  shows "predict_respond e b parsed =
     Inr (Obj [(''forecast_mgdl'', (if m = NaN then Num b else get_field parsed ''forecast_mgdl'')),
               (''main_alert'', main_alert
                  (if to_boolean (get_field parsed ''risk_type'') then get_field parsed ''risk_type''
                   else Str (if num_lt (if m = NaN then b else m) (Fin 100) then ''Hypo risk''
                             else if num_gt (if m = NaN then b else m) (Fin 150) then ''Hyper risk''
                             else ''Stable''))),
               (''alerts'', Arr [Obj [
                  (''risk'', (if to_boolean (get_field parsed ''risk_type'') then get_field parsed ''risk_type''
                   else Str (if num_lt (if m = NaN then b else m) (Fin 100) then ''Hypo risk''
                             else if num_gt (if m = NaN then b else m) (Fin 150) then ''Hyper risk''
                             else ''Stable''))),
                  (''in_minutes'', get_field parsed ''forecast_minutes''),
                  (''time'', Str (time_prefix (tz_offset e)
                     (time_clip (num_add (Fin (of_int (date_now e))) (num_mul mins (Fin 60000))))))]]),
               (''baseline'', Num b)])"
proof (cases "m = NaN")
  case True
  have num_b: "to_number (number_to_string e) (Num b) = Inr b"
    by (simp add: to_number_def)
  show ?thesis
    using True mgdl minutes num_b
    by (simp add: predict_respond_def attempt_def isNaN_def Let_def get_field_set_member)
next
  case False
  show ?thesis
    using False mgdl minutes
    by (simp add: predict_respond_def attempt_def isNaN_def Let_def get_field_set_member)
qed

text \<open>
  C2: whenever the parsed \<^verbatim>\<open>risk_type\<close> is absent, the handler derives the risk
  category from \<^verbatim>\<open>forecast_mgdl\<close> (the provider's value, or the baseline put in its
  place): below 100 gives Hypo risk, above 150 gives Hyper risk, otherwise Stable, both
  boundaries falling into Stable. The derived category is the \<^verbatim>\<open>risk\<close> of the alert
  and selects the main alert.
\<close>

theorem predict_derives_risk_when_absent:
  assumes history: "get_field body ''glucoseHistory'' = Arr hs" "hs \<noteq> []"
    and baseline: "boundedForecast (number_to_string e) body = Inr b"
    and prompt: "template [Arr hs, get_field body ''insulinType'', get_field body ''insulinUnits'',
                   get_field body ''calories'', get_field body ''activity''] = Inr ()"
    and reply: "reply e = Content (Str text)"
    and parsed: "JSON_parse (jsonString text) = Some (Obj parsed)"
    and absent: "get_field parsed ''risk_type'' = Undefined"
    and mgdl: "to_number (number_to_string e) (get_field parsed ''forecast_mgdl'') = Inr m"
    and effective: "(if m = NaN then b else m) = Fin f"
    and minutes: "to_number (number_to_string e) (get_field parsed ''forecast_minutes'') = Inr mins"
  shows "\<exists>forecast_mgdl time.
     predict e body =
       (Responded 200
          (Obj [(''forecast_mgdl'', forecast_mgdl),
                (''main_alert'', main_alert
                   (Str (if f < 100 then ''Hypo risk'' else if 150 < f then ''Hyper risk'' else ''Stable''))),
                (''alerts'', Arr [Obj [
                   (''risk'', Str (if f < 100 then ''Hypo risk'' else if 150 < f then ''Hyper risk'' else ''Stable'')),
                   (''in_minutes'', get_field parsed ''forecast_minutes''),
                   (''time'', Str time)]]),
                (''baseline'', Num b)]), 1)"
proof -
  have "predict e body =
     (case predict_respond e b parsed of
        Inl err \<Rightarrow> (Responded 500 (Obj [(''error'', Str ''Prediction failed'')]), 1)
      | Inr ok \<Rightarrow> (Responded 200 ok, 1))"
    using predict_reaches_try [OF history baseline prompt] predict_try_parsed [OF reply parsed]
    by simp
  then show ?thesis
    using absent effective
    by (simp add: predict_respond_body [OF mgdl minutes] num_gt_def)
qed

theorem predict_derives_risk_when_absent_witness:
  "(\<exists>forecast_mgdl time.
      predict (example_env (Content (Str ''{\"forecast_mgdl\": 95, \"forecast_minutes\": 30}'')))
          [(''glucoseHistory'', Arr [Num (Fin 120)])] =
        (Responded 200
           (Obj [(''forecast_mgdl'', forecast_mgdl),
                 (''main_alert'', main_alert (Str ''Hypo risk'')),
                 (''alerts'', Arr [Obj [(''risk'', Str ''Hypo risk''),
                                        (''in_minutes'', Num (Fin 30)), (''time'', Str time)]]),
                 (''baseline'', Num (Fin 120))]), 1)) \<and>
   (\<exists>forecast_mgdl time.
      predict (example_env (Content (Str ''{\"forecast_mgdl\": 150, \"forecast_minutes\": 30}'')))
          [(''glucoseHistory'', Arr [Num (Fin 120)])] =
        (Responded 200
           (Obj [(''forecast_mgdl'', forecast_mgdl),
                 (''main_alert'', main_alert (Str ''Stable'')),
                 (''alerts'', Arr [Obj [(''risk'', Str ''Stable''),
                                        (''in_minutes'', Num (Fin 30)), (''time'', Str time)]]),
                 (''baseline'', Num (Fin 120))]), 1)) \<and>
   (\<exists>forecast_mgdl time.
      predict (example_env (Content (Str ''{\"forecast_mgdl\": 151, \"forecast_minutes\": 30}'')))
          [(''glucoseHistory'', Arr [Num (Fin 120)])] =
        (Responded 200
           (Obj [(''forecast_mgdl'', forecast_mgdl),
                 (''main_alert'', main_alert (Str ''Hyper risk'')),
                 (''alerts'', Arr [Obj [(''risk'', Str ''Hyper risk''),
                                        (''in_minutes'', Num (Fin 30)), (''time'', Str time)]]),
                 (''baseline'', Num (Fin 120))]), 1))"
proof -
  let ?body = "[(''glucoseHistory'', Arr [Num (Fin 120)])]"
  let ?hypo = "''{\"forecast_mgdl\": 95, \"forecast_minutes\": 30}''"
  let ?stable = "''{\"forecast_mgdl\": 150, \"forecast_minutes\": 30}''"
  let ?hyper = "''{\"forecast_mgdl\": 151, \"forecast_minutes\": 30}''"
  have history: "get_field ?body ''glucoseHistory'' = Arr [Num (Fin 120)]" "[Num (Fin 120)] \<noteq> []"
    by (simp_all add: get_field_def)
  have baseline: "boundedForecast (number_to_string (example_env r)) ?body = Inr (Fin 120)" for r
    by code_simp
  have prompt: "template [Arr [Num (Fin 120)], get_field ?body ''insulinType'',
      get_field ?body ''insulinUnits'', get_field ?body ''calories'', get_field ?body ''activity''] = Inr ()"
    by (simp add: template_def get_field_def)
  have reply: "reply (example_env (Content (Str t))) = Content (Str t)" for t
    by (simp add: example_env_def)
  have parsed:
    "JSON_parse (jsonString ?hypo) =
       Some (Obj [(''forecast_mgdl'', Num (Fin 95)), (''forecast_minutes'', Num (Fin 30))])"
    "JSON_parse (jsonString ?stable) =
       Some (Obj [(''forecast_mgdl'', Num (Fin 150)), (''forecast_minutes'', Num (Fin 30))])"
    "JSON_parse (jsonString ?hyper) =
       Some (Obj [(''forecast_mgdl'', Num (Fin 151)), (''forecast_minutes'', Num (Fin 30))])"
    by code_simp+
  have absent: "get_field [(''forecast_mgdl'', Num (Fin x)), (''forecast_minutes'', Num (Fin 30))]
      ''risk_type'' = Undefined" for x
    by (simp add: get_field_def)
  have mgdl: "to_number (number_to_string (example_env r))
      (get_field [(''forecast_mgdl'', Num (Fin x)), (''forecast_minutes'', Num (Fin 30))] ''forecast_mgdl'')
      = Inr (Fin x)" for r x
    by (simp add: get_field_def to_number_def)
  have effective: "(if Fin x = NaN then Fin 120 else Fin x) = Fin x" for x
    by simp
  have minutes: "to_number (number_to_string (example_env r))
      (get_field [(''forecast_mgdl'', Num (Fin x)), (''forecast_minutes'', Num (Fin 30))] ''forecast_minutes'')
      = Inr (Fin 30)" for r x
    by (simp add: get_field_def to_number_def)
  have in_minutes: "get_field [(''forecast_mgdl'', Num (Fin x)), (''forecast_minutes'', Num (Fin 30))]
      ''forecast_minutes'' = Num (Fin 30)" for x
    by (simp add: get_field_def)
  show ?thesis
    using predict_derives_risk_when_absent
        [OF history baseline prompt reply parsed(1) absent mgdl effective minutes]
      predict_derives_risk_when_absent
        [OF history baseline prompt reply parsed(2) absent mgdl effective minutes]
      predict_derives_risk_when_absent
        [OF history baseline prompt reply parsed(3) absent mgdl effective minutes]
    by (simp add: in_minutes)
qed

text \<open>
  The clamp of line 72 keeps \<^verbatim>\<open>NaN\<close>: the baseline is \<^verbatim>\<open>NaN\<close> or a number
  within [60, 250].
\<close>

lemma clamp_range:
  "Math_max (Fin 60) (Math_min a (Fin 250)) = NaN \<or>
   (\<exists>x. Math_max (Fin 60) (Math_min a (Fin 250)) = Fin x \<and> 60 \<le> x \<and> x \<le> 250)"
  by (cases a) (auto simp: Math_max_def Math_min_def)

lemma boundedForecast_range:
  assumes "boundedForecast fmt body = Inr b"
  shows "b = NaN \<or> (\<exists>x. b = Fin x \<and> 60 \<le> x \<and> x \<le> 250)"
proof -
  from assms obtain a where "b = Math_max (Fin 60) (Math_min a (Fin 250))"
    by (auto simp: boundedForecast_def attempt_def Let_def split: sum.splits)
  then show ?thesis using clamp_range [of a] by simp
qed

text \<open>
  C4 says that the baseline of every successful response lies within [60, 250]. The
  code clamps with \<^verbatim>\<open>Math.max(60, Math.min(approxForecast, 250))\<close>, which lets
  \<^verbatim>\<open>NaN\<close> through: for the body \<^verbatim>\<open>{"glucoseHistory": [120], "insulinType": "fast"}\<close>,
  with the optional \<^verbatim>\<open>insulinUnits\<close> left out, the adjustment is
  \<^verbatim>\<open>0 - undefined * 3 = NaN\<close>, and the 200 response carries the baseline
  \<^verbatim>\<open>NaN\<close> (serialised as \<^verbatim>\<open>null\<close>).
\<close>

theorem predict_baseline_nan_without_units:
  "predict
     (example_env (Content (Str
        ''{\"forecast_mgdl\": 110, \"risk_type\": \"Stable\", \"forecast_minutes\": 30}'')))
     [(''glucoseHistory'', Arr [Num (Fin 120)]), (''insulinType'', Str ''fast'')] =
   (Responded 200
      (Obj [(''forecast_mgdl'', Num (Fin 110)),
            (''main_alert'',
             Obj [(''type'', Str ''Stable''),
                  (''message'', Str ''No immediate risk detected. Continue monitoring as usual.''),
                  (''color'', Str ''#2ecc71'')]),
            (''alerts'',
             Arr [Obj [(''risk'', Str ''Stable''), (''in_minutes'', Num (Fin 30)),
                       (''time'', Str ''22:43'')]]),
            (''baseline'', Num NaN)]), 1)"
  by code_simp

theorem predict_baseline_nan_without_units_witness:
  "\<exists>ok. predict
       (example_env (Content (Str
          ''{\"forecast_mgdl\": 110, \"risk_type\": \"Stable\", \"forecast_minutes\": 30}'')))
       [(''glucoseHistory'', Arr [Num (Fin 120)]), (''insulinType'', Str ''fast'')] =
     (Responded 200 ok, 1) \<and> field_of ok ''baseline'' = Num NaN"
  using predict_baseline_nan_without_units by (simp add: field_of_def get_field_def)

















end
